theory Spec2Isabelle
  imports Main "HOL-Library.Word"
begin

section \<open>Module presence on the simulated FPGA backplane\<close>

text \<open>
  The development follows \<^verbatim>\<open>FakeFPGA/ChipObject/niLoadOut.cpp\<close>, whose only function is
  \<^verbatim>\<open>nLoadOut::getModulePresence(tModuleType moduleType, uint8_t moduleNumber)\<close>.
\<close>

subsection \<open>Data model\<close>

text \<open>
  Modelled from the spec: the enumeration \<^verbatim>\<open>tModuleType\<close> is declared in the header
  \<^verbatim>\<open>NetworkCommunication/LoadOut.h\<close>, which is not among the sources. The function names
  three of its enumerators in \<^verbatim>\<open>case\<close> labels; the spec describes the type as the variants
  Analog, Digital and Solenoid plus a catch-all of every other value, including integers
  that are no enumerator at all. The constructor \<open>kModuleType_Other v\<close> stands for such a
  value, with \<open>v\<close> its underlying integer; it is by construction different from the three
  named enumerators, as distinct \<^verbatim>\<open>case\<close> labels of one \<^verbatim>\<open>switch\<close> are.
\<close>

datatype tModuleType =
    kModuleType_Analog
  | kModuleType_Digital
  | kModuleType_Solenoid
  | kModuleType_Other int

text \<open>A module number is a \<^verbatim>\<open>uint8_t\<close>: an 8-bit word, on which \<open>+\<close> wraps around.\<close>

type_synonym uint8_t = "8 word"

subsection \<open>The function\<close>

text \<open>
  The body is one \<^verbatim>\<open>switch\<close> whose four arms each return. In every comparison the
  \<^verbatim>\<open>uint8_t\<close> operand is promoted to \<^verbatim>\<open>int\<close> first (\<open>uint\<close>), so the comparisons are
  those of integers in the range 0 to 255:
  \<^verbatim>\<open>
    switch (moduleType) {
    case kModuleType_Analog:   return moduleNumber ==0;
    case kModuleType_Digital:  return moduleNumber <= 1 && moduleNumber >= 0;
    case kModuleType_Solenoid: return moduleNumber == 0;
    default:                   return false;
    }
  \<close>
\<close>

definition getModulePresence :: "tModuleType \<Rightarrow> uint8_t \<Rightarrow> bool" where
  "getModulePresence moduleType moduleNumber =
     (case moduleType of
        kModuleType_Analog \<Rightarrow> uint moduleNumber = 0
      | kModuleType_Digital \<Rightarrow> uint moduleNumber \<le> 1 \<and> uint moduleNumber \<ge> 0
      | kModuleType_Solenoid \<Rightarrow> uint moduleNumber = 0
      | _ \<Rightarrow> False)"

subsection \<open>The simplified Digital test\<close>

text \<open>
  The spec's reading of the Digital arm: the lower bound dropped, the upper bound kept,
  on the unsigned module number itself.
\<close>

definition digital_simplified :: "uint8_t \<Rightarrow> bool" where
  "digital_simplified n = (n \<le> 1)"

subsection \<open>The body as statements\<close>

text \<open>
  That a call returns, throws nothing and changes nothing is a property of the statements
  of the body, so the body is also kept as the statements it consists of, run by the rules
  of the language. A \<open>memory\<close> holds every variable of the program outside the call.
  An arithmetic operand is the parameter \<^verbatim>\<open>moduleNumber\<close> (promoted to \<^verbatim>\<open>int\<close>), an integer
  literal or a variable of the program; a statement returns a value, assigns to a variable
  or throws. The outcome of a call is the value returned, an exception, or the end of a
  function reached without a \<^verbatim>\<open>return\<close>.
\<close>

type_synonym memory = "string \<Rightarrow> int"

datatype aexp = ModuleNumber | IntLit int | GlobalVar string

datatype bexp =
    BoolLit bool
  | Equal aexp aexp
  | LessEq aexp aexp
  | GreaterEq aexp aexp
  | LogicalAnd bexp bexp

datatype stmt = Return bexp | Assign string aexp | Throw

datatype label = CaseLabel tModuleType | DefaultLabel

datatype outcome = Returned bool | Threw | NoReturn

fun aval :: "aexp \<Rightarrow> uint8_t \<Rightarrow> memory \<Rightarrow> int" where
  "aval ModuleNumber moduleNumber m = uint moduleNumber"
| "aval (IntLit k) moduleNumber m = k"
| "aval (GlobalVar x) moduleNumber m = m x"

fun bval :: "bexp \<Rightarrow> uint8_t \<Rightarrow> memory \<Rightarrow> bool" where
  "bval (BoolLit b) moduleNumber m = b"
| "bval (Equal a b) moduleNumber m = (aval a moduleNumber m = aval b moduleNumber m)"
| "bval (LessEq a b) moduleNumber m = (aval a moduleNumber m \<le> aval b moduleNumber m)"
| "bval (GreaterEq a b) moduleNumber m = (aval a moduleNumber m \<ge> aval b moduleNumber m)"
| "bval (LogicalAnd a b) moduleNumber m =
     (if bval a moduleNumber m then bval b moduleNumber m else False)"

fun exec_stmts :: "stmt list \<Rightarrow> uint8_t \<Rightarrow> memory \<Rightarrow> outcome option \<times> memory" where
  "exec_stmts [] moduleNumber m = (None, m)"
| "exec_stmts (Return e # ss) moduleNumber m = (Some (Returned (bval e moduleNumber m)), m)"
| "exec_stmts (Assign x a # ss) moduleNumber m =
     exec_stmts ss moduleNumber (m(x := aval a moduleNumber m))"
| "exec_stmts (Throw # ss) moduleNumber m = (Some Threw, m)"

text \<open>
  A \<^verbatim>\<open>switch\<close> jumps to the first arm labelled with the value, or else to the \<^verbatim>\<open>default\<close>
  arm, or else past its end; from the arm reached, the statements run in order and on
  into the following arms until one of them leaves the function.
\<close>

fun arms_from :: "label \<Rightarrow> (label \<times> stmt list) list \<Rightarrow> (label \<times> stmt list) list option" where
  "arms_from l [] = None"
| "arms_from l ((l', ss) # arms) =
     (if l' = l then Some ((l', ss) # arms) else arms_from l arms)"

definition exec_switch ::
  "(label \<times> stmt list) list \<Rightarrow> tModuleType \<Rightarrow> uint8_t \<Rightarrow> memory \<Rightarrow> outcome option \<times> memory" where
  "exec_switch arms moduleType moduleNumber m =
     (case arms_from (CaseLabel moduleType) arms of
        Some rest \<Rightarrow> exec_stmts (concat (map snd rest)) moduleNumber m
      | None \<Rightarrow>
          (case arms_from DefaultLabel arms of
             Some rest \<Rightarrow> exec_stmts (concat (map snd rest)) moduleNumber m
           | None \<Rightarrow> (None, m)))"

text \<open>A function whose body is one \<^verbatim>\<open>switch\<close>: control past the switch reaches the end.\<close>

definition exec_function ::
  "(label \<times> stmt list) list \<Rightarrow> tModuleType \<Rightarrow> uint8_t \<Rightarrow> memory \<Rightarrow> outcome \<times> memory" where
  "exec_function arms moduleType moduleNumber m =
     (case exec_switch arms moduleType moduleNumber m of
        (Some out, m') \<Rightarrow> (out, m')
      | (None, m') \<Rightarrow> (NoReturn, m'))"

text \<open>The four arms of \<^verbatim>\<open>getModulePresence\<close>, lines 7 to 14 of the source, as written.\<close>

definition getModulePresence_body :: "(label \<times> stmt list) list" where
  "getModulePresence_body =
     [(CaseLabel kModuleType_Analog,
         [Return (Equal ModuleNumber (IntLit 0))]),
      (CaseLabel kModuleType_Digital,
         [Return (LogicalAnd (LessEq ModuleNumber (IntLit 1))
                             (GreaterEq ModuleNumber (IntLit 0)))]),
      (CaseLabel kModuleType_Solenoid,
         [Return (Equal ModuleNumber (IntLit 0))]),
      (DefaultLabel,
         [Return (BoolLit False)])]"

definition getModulePresence_run :: "tModuleType \<Rightarrow> uint8_t \<Rightarrow> memory \<Rightarrow> outcome \<times> memory" where
  "getModulePresence_run moduleType moduleNumber m =
     exec_function getModulePresence_body moduleType moduleNumber m"

text \<open>
  A caller that makes one call after the other, each in the memory the previous one left,
  and collects the outcomes in order.
\<close>

fun run_calls :: "(tModuleType \<times> uint8_t) list \<Rightarrow> memory \<Rightarrow> outcome list \<times> memory" where
  "run_calls [] m = ([], m)"
| "run_calls ((t, n) # cs) m =
     (case getModulePresence_run t n m of
        (out, m') \<Rightarrow> (case run_calls cs m' of (outs, m'') \<Rightarrow> (out # outs, m'')))"

subsection \<open>Auxiliary facts\<close>

lemma uint_eq_0_iff: "(uint (n :: uint8_t) = 0) = (n = 0)"
  by (simp add: uint_0_iff)

lemma uint_le_1_iff: "(uint (n :: uint8_t) \<le> 1) = (n = 0 \<or> n = 1)"
proof
  assume le: "uint n \<le> 1"
  have "0 \<le> uint n" by simp
  with le have "uint n = 0 \<or> uint n = 1" by arith
  then show "n = 0 \<or> n = 1"
  proof
    assume "uint n = 0"
    then show ?thesis by (simp add: uint_0_iff)
  next
    assume "uint n = 1"
    then have "uint n = uint (1 :: uint8_t)" by simp
    then have "n = 1" by (simp only: word_uint_eq_iff [symmetric])
    then show ?thesis by simp
  qed
next
  assume "n = 0 \<or> n = 1"
  then show "uint n \<le> 1" by auto
qed

lemma uint8_le_1_iff: "((n :: uint8_t) \<le> 1) = (n = 0 \<or> n = 1)"
  by (simp add: word_le_def uint_le_1_iff)

lemma present_cases:
  "getModulePresence t n =
     (t = kModuleType_Analog \<and> n = 0 \<or>
      t = kModuleType_Digital \<and> (n = 0 \<or> n = 1) \<or>
      t = kModuleType_Solenoid \<and> n = 0)"
  by (cases t) (simp_all add: getModulePresence_def uint_eq_0_iff uint_le_1_iff)

lemma unat_less_2_iff: "(unat (m :: uint8_t) < 2) = (m = 0 \<or> m = 1)"
proof -
  have "(unat m < 2) = (int (unat m) \<le> 1)" by arith
  also have "\<dots> = (uint m \<le> 1)" by simp
  finally show ?thesis by (simp only: uint_le_1_iff)
qed

lemma succ_wraps: "(n :: uint8_t) + 1 = 0 \<Longrightarrow> n = 255"
proof -
  assume "n + 1 = 0"
  then have "n + 1 - 1 = 0 - 1" by (simp only:)
  then have "n = - 1" by simp
  then show "n = 255" by simp
qed

lemma run_value:
  "getModulePresence_run t n m = (Returned (getModulePresence t n), m)"
  by (cases t)
     (simp_all add: getModulePresence_run_def exec_function_def exec_switch_def
        getModulePresence_body_def getModulePresence_def)

lemma run_calls_memory: "snd (run_calls cs m) = m"
  by (induction cs m rule: run_calls.induct)
     (simp_all add: run_value case_prod_unfold)

lemma run_calls_outcomes:
  "fst (run_calls cs m) = map (\<lambda>(t, n). Returned (getModulePresence t n)) cs"
  by (induction cs m rule: run_calls.induct)
     (simp_all add: run_value case_prod_unfold)

section \<open>The per-type ranges\<close>

text \<open>
  C1. For every module number \<open>n\<close>, \<open>getModulePresence\<close> on the Analog type returns true
  if and only if \<open>n\<close> is 0.
\<close>

theorem getModulePresence_Analog:
  "getModulePresence kModuleType_Analog n = (n = 0)"
  by (simp add: getModulePresence_def uint_eq_0_iff)

text \<open>
  C2. For every module number \<open>n\<close>, \<open>getModulePresence\<close> on the Digital type returns true
  if and only if \<open>n\<close> is 0 or 1.
\<close>

theorem getModulePresence_Digital:
  "getModulePresence kModuleType_Digital n = (n = 0 \<or> n = 1)"
  by (simp add: getModulePresence_def uint_le_1_iff)

text \<open>
  C3. For every module number \<open>n\<close>, \<open>getModulePresence\<close> on the Solenoid type returns true
  if and only if \<open>n\<close> is 0.
\<close>

theorem getModulePresence_Solenoid:
  "getModulePresence kModuleType_Solenoid n = (n = 0)"
  by (simp add: getModulePresence_def uint_eq_0_iff)

text \<open>
  C4. For every module type other than Analog, Digital and Solenoid, values that are no
  enumerator included, and every module number \<open>n\<close>, \<open>getModulePresence\<close> returns false.
\<close>

theorem getModulePresence_default:
  assumes "t \<notin> {kModuleType_Analog, kModuleType_Digital, kModuleType_Solenoid}"
  shows "getModulePresence t n = False"
  using assms by (cases t) (simp_all add: getModulePresence_def)

theorem getModulePresence_default_witness:
  "kModuleType_Other 7 \<notin> {kModuleType_Analog, kModuleType_Digital, kModuleType_Solenoid}
   \<and> getModulePresence (kModuleType_Other 7) 0 = False"
proof -
  have h: "kModuleType_Other 7 \<notin> {kModuleType_Analog, kModuleType_Digital, kModuleType_Solenoid}"
    by simp
  from h getModulePresence_default [OF h, of 0] show ?thesis by simp
qed

section \<open>Totality\<close>

text \<open>
  C5. \<open>getModulePresence\<close> is total: for every module type, every module number (0 and
  the largest one, 255, included) and every memory, running the body ends in a returned
  boolean, never in an exception or at the end of the function without a value, and that
  boolean is the value of \<open>getModulePresence\<close>. For a module number out of the range of
  its type and for a module type without slots the returned value is false.
\<close>

theorem getModulePresence_total:
  "(\<exists>b. fst (getModulePresence_run t n m) = Returned b)
   \<and> fst (getModulePresence_run t n m) = Returned (getModulePresence t n)
   \<and> fst (getModulePresence_run t n m)
       = Returned (t = kModuleType_Analog \<and> n = 0
                   \<or> t = kModuleType_Digital \<and> (n = 0 \<or> n = 1)
                   \<or> t = kModuleType_Solenoid \<and> n = 0)
   \<and> fst (getModulePresence_run t 0 m)
       = Returned (t \<in> {kModuleType_Analog, kModuleType_Digital, kModuleType_Solenoid})
   \<and> fst (getModulePresence_run t 255 m) = Returned False
   \<and> (\<not> (t = kModuleType_Analog \<and> n = 0
           \<or> t = kModuleType_Digital \<and> (n = 0 \<or> n = 1)
           \<or> t = kModuleType_Solenoid \<and> n = 0)
        \<longrightarrow> fst (getModulePresence_run t n m) = Returned False)"
proof -
  have val: "fst (getModulePresence_run t n m) = Returned (getModulePresence t n)"
    by (simp add: run_value)
  have closed:
    "fst (getModulePresence_run t n m)
       = Returned (t = kModuleType_Analog \<and> n = 0
                   \<or> t = kModuleType_Digital \<and> (n = 0 \<or> n = 1)
                   \<or> t = kModuleType_Solenoid \<and> n = 0)"
    by (simp only: val present_cases)
  have zero:
    "fst (getModulePresence_run t 0 m)
       = Returned (t \<in> {kModuleType_Analog, kModuleType_Digital, kModuleType_Solenoid})"
    by (auto simp: run_value present_cases)
  have max: "fst (getModulePresence_run t 255 m) = Returned False"
    by (simp add: run_value present_cases)
  have outside:
    "\<not> (t = kModuleType_Analog \<and> n = 0
        \<or> t = kModuleType_Digital \<and> (n = 0 \<or> n = 1)
        \<or> t = kModuleType_Solenoid \<and> n = 0)
     \<longrightarrow> fst (getModulePresence_run t n m) = Returned False"
    by (simp only: closed) simp
  from val closed zero max outside show ?thesis by blast
qed

theorem getModulePresence_total_witness:
  "\<not> (kModuleType_Analog = kModuleType_Analog \<and> (1 :: uint8_t) = 0
       \<or> kModuleType_Analog = kModuleType_Digital \<and> ((1 :: uint8_t) = 0 \<or> (1 :: uint8_t) = 1)
       \<or> kModuleType_Analog = kModuleType_Solenoid \<and> (1 :: uint8_t) = 0)
   \<and> fst (getModulePresence_run kModuleType_Analog 1 (\<lambda>x. 0)) = Returned False"
proof -
  have outside:
    "\<not> (kModuleType_Analog = kModuleType_Analog \<and> (1 :: uint8_t) = 0
         \<or> kModuleType_Analog = kModuleType_Digital \<and> ((1 :: uint8_t) = 0 \<or> (1 :: uint8_t) = 1)
         \<or> kModuleType_Analog = kModuleType_Solenoid \<and> (1 :: uint8_t) = 0)"
    by simp
  from getModulePresence_total [of kModuleType_Analog 1 "\<lambda>x. 0"]
  have "\<not> (kModuleType_Analog = kModuleType_Analog \<and> (1 :: uint8_t) = 0
         \<or> kModuleType_Analog = kModuleType_Digital \<and> ((1 :: uint8_t) = 0 \<or> (1 :: uint8_t) = 1)
         \<or> kModuleType_Analog = kModuleType_Solenoid \<and> (1 :: uint8_t) = 0)
        \<longrightarrow> fst (getModulePresence_run kModuleType_Analog 1 (\<lambda>x. 0)) = Returned False"
    by (elim conjE)
  with outside show ?thesis by blast
qed

section \<open>Concrete scenarios\<close>

text \<open>
  C6. Analog slot 0 is present and Analog slot 1 is not; Digital slot 1 is present and
  Digital slot 2 is not; Solenoid slot 0 is present.
\<close>

theorem getModulePresence_scenarios:
  "getModulePresence kModuleType_Analog 0 = True
   \<and> getModulePresence kModuleType_Analog 1 = False
   \<and> getModulePresence kModuleType_Digital 1 = True
   \<and> getModulePresence kModuleType_Digital 2 = False
   \<and> getModulePresence kModuleType_Solenoid 0 = True"
  by (simp add: getModulePresence_def)

section \<open>Determinism and absence of effects\<close>

text \<open>
  C7. Two calls with the same module type and module number return the same boolean, in
  whatever memories they are made; a call leaves the memory as it found it; a call made
  after another call returns what it returns without it; and after any sequence of earlier
  calls a call returns what it returns on its own, with the memory still the initial one.
\<close>

theorem getModulePresence_deterministic:
  "fst (getModulePresence_run t n m1) = fst (getModulePresence_run t n m2)
   \<and> snd (getModulePresence_run t n m1) = m1
   \<and> fst (getModulePresence_run t n (snd (getModulePresence_run t' n' m1)))
       = fst (getModulePresence_run t n m1)
   \<and> run_calls (cs @ [(t, n)]) m1
       = (fst (run_calls cs m1) @ [fst (getModulePresence_run t n m2)], m1)"
proof -
  have same: "fst (getModulePresence_run t n m1) = fst (getModulePresence_run t n m2)"
    by (simp add: run_value)
  have unchanged: "snd (getModulePresence_run t n m1) = m1"
    by (simp add: run_value)
  have next_call:
    "fst (getModulePresence_run t n (snd (getModulePresence_run t' n' m1)))
       = fst (getModulePresence_run t n m1)"
    by (simp add: run_value)
  have "fst (run_calls (cs @ [(t, n)]) m1)
          = fst (run_calls cs m1) @ [fst (getModulePresence_run t n m2)]"
    by (simp add: run_calls_outcomes run_value)
  moreover have "snd (run_calls (cs @ [(t, n)]) m1) = m1"
    by (rule run_calls_memory)
  ultimately have later:
    "run_calls (cs @ [(t, n)]) m1
       = (fst (run_calls cs m1) @ [fst (getModulePresence_run t n m2)], m1)"
    by (simp add: prod_eq_iff)
  from same unchanged next_call later show ?thesis by blast
qed

section \<open>The redundant lower bound\<close>

text \<open>
  C8. In the Digital arm the comparison with 0 is redundant: the module number is unsigned,
  so it always holds, the test as implemented equals the simplified test \<open>n \<le> 1\<close>, and
  \<open>getModulePresence\<close> on the Digital type is that simplified test.
\<close>

theorem getModulePresence_Digital_simplified:
  "uint n \<ge> 0
   \<and> (uint n \<le> 1 \<and> uint n \<ge> 0) = digital_simplified n
   \<and> getModulePresence kModuleType_Digital n = digital_simplified n"
  by (simp add: getModulePresence_def digital_simplified_def word_le_def)

section \<open>Bounds on the present slots\<close>

text \<open>
  C9. Whatever the module type, a module number reported present is at most 1: no slot
  numbered 2 or more is present.
\<close>

theorem getModulePresence_bound:
  assumes "getModulePresence t n"
  shows "n \<le> 1"
  using assms by (auto simp: present_cases uint8_le_1_iff)

theorem getModulePresence_bound_witness:
  "getModulePresence kModuleType_Digital 1 \<and> (1 :: uint8_t) \<le> 1"
proof -
  have h: "getModulePresence kModuleType_Digital 1"
    by (simp add: getModulePresence_def)
  from h getModulePresence_bound [OF h] show ?thesis by simp
qed

text \<open>
  C10, as stated: if slot \<open>n + 1\<close> is present then slot \<open>n\<close> is. On the 8-bit module
  number this fails at the largest one: \<open>255 + 1\<close> is 0, the Analog slot 0 is present and
  the Analog slot 255 is not.
\<close>

theorem getModulePresence_successor_counterexample:
  "getModulePresence kModuleType_Analog (255 + 1)
   \<and> \<not> getModulePresence kModuleType_Analog 255"
  by (simp add: getModulePresence_def)

text \<open>
  C10, amended: for every module type and every module number \<open>n\<close> below 255, if slot
  \<open>n + 1\<close> is present then slot \<open>n\<close> is; and the present module numbers of each type are
  those below some bound \<open>k\<close>, a contiguous range that starts at 0.
\<close>

theorem getModulePresence_downward_closed:
  "(n \<noteq> 255 \<longrightarrow> getModulePresence t (n + 1) \<longrightarrow> getModulePresence t n)
   \<and> (\<exists>k. \<forall>m. getModulePresence t m = (unat m < k))"
proof -
  have step: "n \<noteq> 255 \<longrightarrow> getModulePresence t (n + 1) \<longrightarrow> getModulePresence t n"
  proof (intro impI)
    assume nmax: "n \<noteq> 255" and succ: "getModulePresence t (n + 1)"
    from succ have "n + 1 = 0 \<or> n + 1 = 1 \<and> t = kModuleType_Digital"
      by (auto simp: present_cases)
    then show "getModulePresence t n"
    proof
      assume "n + 1 = 0"
      then have "n = 255" by (rule succ_wraps)
      with nmax show ?thesis by simp
    next
      assume "n + 1 = 1 \<and> t = kModuleType_Digital"
      then show ?thesis by (simp add: present_cases)
    qed
  qed
  have range: "\<exists>k. \<forall>m. getModulePresence t m = (unat m < k)"
  proof (cases t)
    case kModuleType_Analog
    have "\<forall>m. getModulePresence t m = (unat m < 1)"
      by (simp add: kModuleType_Analog present_cases unat_eq_0)
    then show ?thesis ..
  next
    case kModuleType_Digital
    have "\<forall>m. getModulePresence t m = (unat m < 2)"
      by (simp add: kModuleType_Digital present_cases unat_less_2_iff)
    then show ?thesis ..
  next
    case kModuleType_Solenoid
    have "\<forall>m. getModulePresence t m = (unat m < 1)"
      by (simp add: kModuleType_Solenoid present_cases unat_eq_0)
    then show ?thesis ..
  next
    case (kModuleType_Other v)
    have "\<forall>m. getModulePresence t m = (unat m < 0)"
      by (simp add: kModuleType_Other present_cases)
    then show ?thesis ..
  qed
  from step range show ?thesis by blast
qed

theorem getModulePresence_downward_closed_witness:
  "(0 :: uint8_t) \<noteq> 255
   \<and> getModulePresence kModuleType_Digital (0 + 1)
   \<and> getModulePresence kModuleType_Digital 0"
  using getModulePresence_downward_closed [of 0 kModuleType_Digital]
  by (simp add: getModulePresence_def)

end
